theory Spec2Isabelle
  imports Main
begin

section \<open>JavaScript values used by the program\<close>

text \<open>
  The program is a Node.js script (\<^verbatim>\<open>src/unnamed/part_000\<close>, the entry point with
  \<^verbatim>\<open>main\<close>, \<^verbatim>\<open>readAccounts\<close>, \<^verbatim>\<open>cleanAccount\<close>) and a class \<^verbatim>\<open>Bot\<close>
  (\<^verbatim>\<open>src/src/bot.ts\<close>). Strings are \<open>string\<close>; a value that may be
  \<^verbatim>\<open>undefined\<close> or \<^verbatim>\<open>null\<close> is an \<open>option\<close>; a thrown error is the
  \<open>Inl\<close> of a sum.
\<close>

datatype js_error =
    Error string "js_error option"
  | SyntaxError
  | TypeError
  | ENOENT
  | EISDIR

text \<open>
  \<open>Error m c\<close> is \<^verbatim>\<open>new Error(m, { cause: c })\<close>. \<open>SyntaxError\<close> is what
  \<^verbatim>\<open>JSON.parse\<close> throws, \<open>TypeError\<close> what reading a property of
  \<^verbatim>\<open>undefined\<close> throws, \<open>ENOENT\<close> and \<open>EISDIR\<close> what \<^verbatim>\<open>fs.readFileSync\<close>
  throws on a missing path and on a directory.
\<close>

datatype json =
    JNull
  | JBool bool
  | JNumber int
  | JString string
  | JArray "json list"
  | JObject "(string \<times> json) list"

text \<open>
  A value returned by \<^verbatim>\<open>JSON.parse\<close>. An object lists its own properties, each key
  once (for a repeated key \<^verbatim>\<open>JSON.parse\<close> keeps one value). Numbers are integers here:
  the program only tests them for truthiness.
\<close>

fun truthy :: "json \<Rightarrow> bool" where
  "truthy JNull = False"
| "truthy (JBool b) = b"
| "truthy (JNumber n) = (n \<noteq> 0)"
| "truthy (JString s) = (s \<noteq> [])"
| "truthy (JArray xs) = True"
| "truthy (JObject kvs) = True"

fun truthyU :: "json option \<Rightarrow> bool" where
  "truthyU None = False"
| "truthyU (Some v) = truthy v"

text \<open>
  \<open>getProp v k\<close> is \<^verbatim>\<open>v.k\<close> for a value that is not \<^verbatim>\<open>null\<close>: the property
  of an object, \<^verbatim>\<open>undefined\<close> (\<open>None\<close>) for a missing key and for the keys the
  program reads on a primitive or an array. \<open>optChain v k\<close> is \<^verbatim>\<open>v?.k\<close>.
\<close>

fun getProp :: "json \<Rightarrow> string \<Rightarrow> json option" where
  "getProp (JObject kvs) k = map_of kvs k"
| "getProp v k = None"

fun optChain :: "json option \<Rightarrow> string \<Rightarrow> json option" where
  "optChain None k = None"
| "optChain (Some JNull) k = None"
| "optChain (Some v) k = getProp v k"

subsection \<open>String operations\<close>

definition js_startsWith :: "string \<Rightarrow> string \<Rightarrow> bool" where
  "js_startsWith s pat = (take (length pat) s = pat)"

definition js_endsWith :: "string \<Rightarrow> string \<Rightarrow> bool" where
  "js_endsWith s suf = (length suf \<le> length s \<and> drop (length s - length suf) s = suf)"

text \<open>
  \<^verbatim>\<open>s.replace(pat, rep)\<close> with a string pattern: only the first (leftmost) occurrence
  of \<open>pat\<close> is replaced.
\<close>

fun js_replace :: "string \<Rightarrow> string \<Rightarrow> string \<Rightarrow> string" where
  "js_replace [] pat rep = (if pat = [] then rep else [])"
| "js_replace (c # cs) pat rep =
     (if js_startsWith (c # cs) pat then rep @ drop (length pat) (c # cs)
      else c # js_replace cs pat rep)"

fun js_includes :: "string \<Rightarrow> string \<Rightarrow> bool" where
  "js_includes [] pat = (pat = [])"
| "js_includes (c # cs) pat = (js_startsWith (c # cs) pat \<or> js_includes cs pat)"

section \<open>The file system under the farms directory\<close>

text \<open>
  A file is represented by what \<^verbatim>\<open>JSON.parse\<close> makes of its text: \<open>NotJSON\<close> when
  \<^verbatim>\<open>JSON.parse\<close> throws, \<open>JSONText v\<close> when it returns \<open>v\<close>. A directory lists its
  entries in the order \<^verbatim>\<open>fs.readdirSync\<close> returns them.
\<close>

datatype file_text = NotJSON | JSONText json

datatype node = File file_text | Directory "(string \<times> node) list"

record filesystem =
  farmsDirectoryPath :: string
  farmsDirectory :: "(string \<times> node) list"

text \<open>
  \<open>farmsDirectoryPath\<close> is \<^verbatim>\<open>path.resolve(process.cwd(), './farms')\<close>, a directory
  (line 16 creates it when it is missing); \<open>farmsDirectory\<close> holds its entries.
  \<open>join\<close> is \<^verbatim>\<open>path.join\<close> of a directory's path and one of its entries' names
  (POSIX separator).
\<close>

definition join :: "string \<Rightarrow> string \<Rightarrow> string" where
  "join entityPath entity = entityPath @ ''/'' @ entity"

text \<open>
  \<^verbatim>\<open>readDirectory\<close> (lines 143-155), on the entries of an existing directory: the
  files below it, depth first, directories replaced by their own files.
\<close>

fun readDirectory :: "string \<Rightarrow> (string \<times> node) list \<Rightarrow> string list" where
  "readDirectory entityPath [] = []"
| "readDirectory entityPath ((entity, File t) # rest) =
     join entityPath entity # readDirectory entityPath rest"
| "readDirectory entityPath ((entity, Directory es) # rest) =
     readDirectory (join entityPath entity) es @ readDirectory entityPath rest"

text \<open>Every path below a directory, with what is stored there.\<close>

fun entries :: "string \<Rightarrow> (string \<times> node) list \<Rightarrow> (string \<times> node) list" where
  "entries entityPath [] = []"
| "entries entityPath ((entity, File t) # rest) =
     (join entityPath entity, File t) # entries entityPath rest"
| "entries entityPath ((entity, Directory es) # rest) =
     (join entityPath entity, Directory es) # entries (join entityPath entity) es
       @ entries entityPath rest"

definition lookup :: "filesystem \<Rightarrow> string \<Rightarrow> node option" where
  "lookup fs p = map_of (entries (farmsDirectoryPath fs) (farmsDirectory fs)) p"

definition existsSync :: "filesystem \<Rightarrow> string \<Rightarrow> bool" where
  "existsSync fs p = (lookup fs p \<noteq> None)"

definition readFileSync :: "filesystem \<Rightarrow> string \<Rightarrow> js_error + file_text" where
  "readFileSync fs p =
     (case lookup fs p of
        None \<Rightarrow> Inl ENOENT
      | Some (Directory es) \<Rightarrow> Inl EISDIR
      | Some (File t) \<Rightarrow> Inr t)"

fun JSON_parse :: "file_text \<Rightarrow> js_error + json" where
  "JSON_parse NotJSON = Inl SyntaxError"
| "JSON_parse (JSONText v) = Inr v"

text \<open>\<^verbatim>\<open>JSON.parse(fs.readFileSync(p, 'utf-8'))\<close>, as lines 102-103, 117-118, 124-125, 131-132.\<close>

definition readJSON :: "filesystem \<Rightarrow> string \<Rightarrow> js_error + json" where
  "readJSON fs p = (case readFileSync fs p of Inl e \<Rightarrow> Inl e | Inr t \<Rightarrow> JSON_parse t)"

section \<open>Accounts and the account loader\<close>

datatype AccountStatus = Active | Banned | Limited | Unknown

text \<open>
  The interface \<^verbatim>\<open>Account\<close>. The loader stores whatever truthy JSON values the
  credential file holds, so \<open>username\<close> and \<open>password\<close> are JSON values; \<open>secret\<close> is
  \<^verbatim>\<open>null\<close> (\<open>None\<close>) or the value found in a sidecar file.
\<close>

record Account =
  id_acc :: string
  status :: AccountStatus
  username :: json
  password :: json
  secret :: "json option"

text \<open>Line 108: \<^verbatim>\<open>id: jsonPath.replace('.json', '')\<close>.\<close>

definition accountId :: "string \<Rightarrow> string" where
  "accountId jsonPath = js_replace jsonPath ''.json'' []"

text \<open>
  The two secret expressions: \<^verbatim>\<open>db?._MobileAuthenticator?.shared_secret\<close> (line 120) and
  \<^verbatim>\<open>mafile?.shared_secret\<close> (lines 127, 134).
\<close>

definition dbSecret :: "json \<Rightarrow> json option" where
  "dbSecret db = optChain (optChain (Some db) ''_MobileAuthenticator'') ''shared_secret''"

definition mafileSecret :: "json \<Rightarrow> json option" where
  "mafileSecret mafile = optChain (Some mafile) ''shared_secret''"

text \<open>Lines 116-121: the \<^verbatim>\<open>.db\<close> sidecar.\<close>

definition secretFromDb :: "filesystem \<Rightarrow> Account \<Rightarrow> js_error + Account" where
  "secretFromDb fs account =
     (if existsSync fs (id_acc account @ ''.db'') then
        (case readJSON fs (id_acc account @ ''.db'') of
           Inl e \<Rightarrow> Inl e
         | Inr db \<Rightarrow>
             (if truthyU (dbSecret db) then Inr (account\<lparr>secret := dbSecret db\<rparr>)
              else Inr account))
      else Inr account)"

text \<open>Lines 123-128 and 130-135: the \<^verbatim>\<open>.mafile\<close> and \<^verbatim>\<open>.maFile\<close> sidecars.\<close>

definition secretFromMafile :: "filesystem \<Rightarrow> string \<Rightarrow> Account \<Rightarrow> js_error + Account" where
  "secretFromMafile fs ext account =
     (if \<not> truthyU (secret account) \<and> existsSync fs (id_acc account @ ext) then
        (case readJSON fs (id_acc account @ ext) of
           Inl e \<Rightarrow> Inl e
         | Inr mafile \<Rightarrow>
             (if truthyU (mafileSecret mafile) then Inr (account\<lparr>secret := mafileSecret mafile\<rparr>)
              else Inr account))
      else Inr account)"

text \<open>Lines 116-135 in sequence.\<close>

definition readSecret :: "filesystem \<Rightarrow> Account \<Rightarrow> js_error + Account" where
  "readSecret fs account =
     (case secretFromDb fs account of
        Inl e \<Rightarrow> Inl e
      | Inr a1 \<Rightarrow>
          (case secretFromMafile fs ''.mafile'' a1 of
             Inl e \<Rightarrow> Inl e
           | Inr a2 \<Rightarrow> secretFromMafile fs ''.maFile'' a2))"

text \<open>
  The loop of \<^verbatim>\<open>readAccounts\<close> (lines 101-138) over the remaining paths, with the
  array \<^verbatim>\<open>accounts\<close> built so far. An error thrown in the body leaves the function.
\<close>

fun readAccountsLoop :: "filesystem \<Rightarrow> string list \<Rightarrow> Account list \<Rightarrow> js_error + Account list" where
  "readAccountsLoop fs [] accounts = Inr accounts"
| "readAccountsLoop fs (jsonPath # rest) accounts =
     (case readJSON fs jsonPath of
        Inl e \<Rightarrow> Inl e
      | Inr json \<Rightarrow>
          (if \<not> truthy json \<or> \<not> truthyU (getProp json ''SteamLogin'')
               \<or> \<not> truthyU (getProp json ''SteamPassword'')
           then readAccountsLoop fs rest accounts
           else
             (case (getProp json ''SteamLogin'', getProp json ''SteamPassword'') of
                (Some login, Some pass) \<Rightarrow>
                  (case readSecret fs
                          \<lparr>id_acc = accountId jsonPath, status = Active,
                           username = login, password = pass, secret = None\<rparr> of
                     Inl e \<Rightarrow> Inl e
                   | Inr account \<Rightarrow> readAccountsLoop fs rest (accounts @ [account]))
              | other \<Rightarrow> readAccountsLoop fs rest accounts)))"

definition readAccounts :: "filesystem \<Rightarrow> js_error + Account list" where
  "readAccounts fs =
     readAccountsLoop fs
       (filter (\<lambda>f. js_endsWith f ''.json'')
          (readDirectory (farmsDirectoryPath fs) (farmsDirectory fs)))
       []"

section \<open>The bot: one account's session\<close>

text \<open>
  A JavaScript number as \<^verbatim>\<open>parseInt\<close> can return it: an integer, \<^verbatim>\<open>NaN\<close>, or an
  infinity.
\<close>

datatype js_number = Num int | NaN | PlusInfinity | MinusInfinity

text \<open>
  The text of the level element of the badges page (line 159), represented by what lines
  160-162 make of it: \<open>EmptyLevel\<close> for the empty string, for which line 160 throws;
  \<open>ParsedLevel n\<close> for a text that is not empty and on which \<^verbatim>\<open>parseInt(level, 10)\<close>
  returns \<open>n\<close>.
\<close>

datatype level_text = EmptyLevel | ParsedLevel js_number

text \<open>
  The fields of \<^verbatim>\<open>Bot\<close> that the program reads after construction: the proxy, and the
  two signals \<^verbatim>\<open>bans?: string[]\<close> and \<^verbatim>\<open>level?: number\<close>, both
  \<^verbatim>\<open>undefined\<close> (\<open>None\<close>) until a retrieval sets them.
\<close>

record Bot =
  proxy :: "string option"
  bans :: "string list option"
  level :: "js_number option"

text \<open>Lines 26-50 of \<^verbatim>\<open>bot.ts\<close>: a proxy that is \<^verbatim>\<open>undefined\<close> becomes \<^verbatim>\<open>null\<close>.\<close>

definition newBot :: "string option \<Rightarrow> Bot" where
  "newBot p = \<lparr>proxy = p, bans = None, level = None\<rparr>"

text \<open>
  What the program does to the outside world, in the order it does it. The trace of one
  account is the list of the events of its bot and of its completion handlers.
\<close>

datatype event =
    StartCalled
  | AgentDestroyed
  | Waited nat
  | StatusWritten AccountStatus
  | LoggedProcessed json AccountStatus
  | LoggedFailed json js_error
  | CleanAccountCalled Account

text \<open>
  \<open>StartCalled\<close>: \<^verbatim>\<open>bot.start()\<close> is entered. \<open>AgentDestroyed\<close>: \<^verbatim>\<open>this.agent.destroy()\<close>,
  the body of \<^verbatim>\<open>bot.stop()\<close>. \<open>Waited ms\<close>: the retry wrapper waits. \<open>StatusWritten s\<close>:
  \<^verbatim>\<open>account.status = s\<close>. \<open>LoggedProcessed\<close>, \<open>LoggedFailed\<close>: the two log lines, with
  the username and the status or the error whose message is printed.
  \<open>CleanAccountCalled a\<close>: \<^verbatim>\<open>cleanAccount(a)\<close> is called. What the call does, and when
  it throws, is \<open>cleanAccount\<close> below.
\<close>

text \<open>
  What the remote service answers during one call of \<^verbatim>\<open>bot.start()\<close>: the error raised
  inside the login (\<open>None\<close>: authenticated), the error raised while the cookies are
  fetched and stored, the text of the support messages page, and the text of the level
  element of the badges page (each of the two or the error of its request).
\<close>

record Attempt =
  tokenFailure :: "js_error option"
  cookiesFailure :: "js_error option"
  supportmessages :: "js_error + string"
  levelText :: "js_error + level_text"

definition retrieveToken :: "Attempt \<Rightarrow> js_error + unit" where
  "retrieveToken a =
     (case tokenFailure a of
        None \<Rightarrow> Inr ()
      | Some e \<Rightarrow> Inl (Error ''Failed to retrieve token'' (Some e)))"

definition retrieveCookies :: "Attempt \<Rightarrow> js_error + unit" where
  "retrieveCookies a =
     (case cookiesFailure a of
        None \<Rightarrow> Inr ()
      | Some e \<Rightarrow> Inl (Error ''Failed to retrieve cookies'' (Some e)))"

definition retriveBansInfo :: "Bot \<Rightarrow> Attempt \<Rightarrow> (js_error + unit) \<times> Bot" where
  "retriveBansInfo bt a =
     (case supportmessages a of
        Inl e \<Rightarrow> (Inl (Error ''Failed to retrieve bans info'' (Some e)), bt)
      | Inr response \<Rightarrow>
          (Inr (),
           bt\<lparr>bans := Some (if js_includes response ''Account functionality has been restricted''
                              then [''community ban''] else [])\<rparr>))"

definition retrieveProfileLevel :: "Bot \<Rightarrow> Attempt \<Rightarrow> (js_error + unit) \<times> Bot" where
  "retrieveProfileLevel bt a =
     (case levelText a of
        Inl e \<Rightarrow> (Inl (Error ''Failed to retrieve profile level'' (Some e)), bt)
      | Inr EmptyLevel \<Rightarrow>
          (Inl (Error ''Failed to retrieve profile level''
                  (Some (Error ''Bad server response'' None))), bt)
      | Inr (ParsedLevel n) \<Rightarrow> (Inr (), bt\<lparr>level := Some n\<rparr>))"

text \<open>\<^verbatim>\<open>stop()\<close> (lines 65-67) and the \<^verbatim>\<open>catch\<close> block of \<^verbatim>\<open>start()\<close> (lines 59-62).\<close>

definition stop :: "event list" where
  "stop = [AgentDestroyed]"

definition startFailed :: "js_error \<Rightarrow> Bot \<Rightarrow> (js_error + unit) \<times> Bot \<times> event list" where
  "startFailed e bt = (Inl (Error ''Failed to start'' (Some e)), bt, StartCalled # stop)"

text \<open>\<^verbatim>\<open>start()\<close> (lines 52-63): the four steps in sequence, the first failure caught.\<close>

definition start :: "Bot \<Rightarrow> Attempt \<Rightarrow> (js_error + unit) \<times> Bot \<times> event list" where
  "start bt a =
     (case retrieveToken a of
        Inl e \<Rightarrow> startFailed e bt
      | Inr u1 \<Rightarrow>
          (case retrieveCookies a of
             Inl e \<Rightarrow> startFailed e bt
           | Inr u2 \<Rightarrow>
               (case retriveBansInfo bt a of
                  (Inl e, bot1) \<Rightarrow> startFailed e bot1
                | (Inr u3, bot1) \<Rightarrow>
                    (case retrieveProfileLevel bot1 a of
                       (Inl e, bot2) \<Rightarrow> startFailed e bot2
                     | (Inr u4, bot2) \<Rightarrow> (Inr (), bot2, [StartCalled])))))"

section \<open>The retry wrapper\<close>

text \<open>
  Modelled from the spec: the retry wrapper \<^verbatim>\<open>pRetry\<close> (the package p-retry, which is
  not under src/). The spec's contract: invoke the action; on failure wait the attempt
  delay, then retry, up to the maximum number of attempts; when the final attempt fails,
  propagate that failure unchanged. The policy is given by the options of the call site
  (line 46): \<open>retries\<close> attempts after the first one, and a delay that starts at
  \<open>minTimeout\<close>, is multiplied by \<open>factor\<close> (2 when the call gives none) for each
  further attempt, and never exceeds \<open>maxTimeout\<close>.

  \<open>pRetry left n opts action s\<close>: \<open>left\<close> retries remain, \<open>n\<close> attempts have been made,
  \<open>action n\<close> is the next invocation, \<open>s\<close> the state the action works on.
\<close>

record RetryOptions =
  retries :: nat
  factor :: nat
  minTimeout :: nat
  maxTimeout :: nat

definition createTimeout :: "RetryOptions \<Rightarrow> nat \<Rightarrow> nat" where
  "createTimeout opts attempt =
     min (max (minTimeout opts) 1 * factor opts ^ attempt) (maxTimeout opts)"

fun pRetry ::
  "nat \<Rightarrow> nat \<Rightarrow> RetryOptions \<Rightarrow> (nat \<Rightarrow> 's \<Rightarrow> (js_error + unit) \<times> 's \<times> event list)
     \<Rightarrow> 's \<Rightarrow> (js_error + unit) \<times> 's \<times> event list" where
  "pRetry 0 n opts action s = action n s"
| "pRetry (Suc left) n opts action s =
     (case action n s of
        (Inr u, s1, evs) \<Rightarrow> (Inr u, s1, evs)
      | (Inl e, s1, evs) \<Rightarrow>
          (case pRetry left (Suc n) opts action s1 of
             (r, s2, evs2) \<Rightarrow> (r, s2, evs @ Waited (createTimeout opts n) # evs2)))"

text \<open>
  Line 46: \<^verbatim>\<open>pRetry(() => bot.start(), { retries: 3, minTimeout: 30000, maxTimeout: 30000 })\<close>.
  \<open>env n\<close> is what the remote service answers during the attempt number \<open>n\<close> (from 0).
\<close>

definition retryOptions :: RetryOptions where
  "retryOptions = \<lparr>retries = 3, factor = 2, minTimeout = 30000, maxTimeout = 30000\<rparr>"

definition task :: "(nat \<Rightarrow> Attempt) \<Rightarrow> Bot \<Rightarrow> (js_error + unit) \<times> Bot \<times> event list" where
  "task env bt = pRetry (retries retryOptions) 0 retryOptions (\<lambda>n b. start b (env n)) bt"

section \<open>The batch driver\<close>

text \<open>
  Modelled from the spec: the interface \<^verbatim>\<open>Config\<close> (\<^verbatim>\<open>./interfaces/config.interface\<close>,
  which is not under src/). The spec's batch configuration is two boolean toggles, whether
  a Limited and whether a Banned account is archived; they are the two fields that
  \<^verbatim>\<open>getDefaultConfig\<close> (lines 166-171) sets.
\<close>

record Config =
  CleanLimitedAccounts :: bool
  CleanBannedAccounts :: bool

definition getDefaultConfig :: Config where
  "getDefaultConfig = \<lparr>CleanLimitedAccounts = True, CleanBannedAccounts = True\<rparr>"

text \<open>
  The options given to \<^verbatim>\<open>new PQueue\<close> (lines 36-39); \<open>n\<close> is the variable
  \<^verbatim>\<open>concurrency = proxies.length || 1\<close>.
\<close>

record QueueOptions =
  concurrency :: nat
  interval :: nat
  intervalCap :: nat

definition queueOptions :: "string list \<Rightarrow> QueueOptions" where
  "queueOptions proxies =
     (let n = (if length proxies = 0 then 1 else length proxies)
      in \<lparr>concurrency = n, interval = 30000, intervalCap = n\<rparr>)"

text \<open>
  Line 43: \<^verbatim>\<open>proxies[index++ % proxies.length]\<close>, which is \<^verbatim>\<open>undefined\<close> for an empty
  list.
\<close>

definition pickProxy :: "string list \<Rightarrow> nat \<Rightarrow> string option" where
  "pickProxy proxies index =
     (if proxies = [] then None else Some (proxies ! (index mod length proxies)))"

text \<open>
  The \<^verbatim>\<open>then\<close> callback (lines 50-56). Reading \<^verbatim>\<open>bot.bans.length\<close> throws when
  \<^verbatim>\<open>bans\<close> is \<^verbatim>\<open>undefined\<close>; \<^verbatim>\<open>bot.level === 0\<close> is strict equality.
\<close>

definition onFulfilled :: "Bot \<Rightarrow> Account \<Rightarrow> (js_error + unit) \<times> Account \<times> event list" where
  "onFulfilled bt account =
     (case bans bt of
        None \<Rightarrow> (Inl TypeError, account, [])
      | Some bs \<Rightarrow>
          (let st = (if length bs > 0 then Banned
                     else if level bt = Some (Num 0) then Limited
                     else Active)
           in (Inr (), account\<lparr>status := st\<rparr>,
               [StatusWritten st, LoggedProcessed (username account) st])))"

text \<open>The \<^verbatim>\<open>catch\<close> callback (lines 57-61).\<close>

definition onRejected :: "js_error \<Rightarrow> Account \<Rightarrow> Account \<times> event list" where
  "onRejected error account =
     (account\<lparr>status := Unknown\<rparr>,
      [StatusWritten Unknown, LoggedFailed (username account) error])"

text \<open>
  The \<^verbatim>\<open>finally\<close> callback (lines 62-70): the calls it makes. An error thrown by
  \<^verbatim>\<open>cleanAccount\<close> leaves the callback after the call was made, so it changes none of
  them; what becomes of it is not represented here.
\<close>

definition onFinally :: "Config \<Rightarrow> Account \<Rightarrow> event list" where
  "onFinally config account =
     stop @
     (if status account = Active then []
      else if status account = Banned \<and> \<not> CleanBannedAccounts config then []
      else if status account = Limited \<and> \<not> CleanLimitedAccounts config then []
      else [CleanAccountCalled account])"

text \<open>
  The chain \<^verbatim>\<open>.then(...).catch(...).finally(...)\<close> on the promise of the queued task
  (lines 48-70), given the task's result and the bot as the task left it. An error thrown by
  the \<^verbatim>\<open>then\<close> callback reaches the \<^verbatim>\<open>catch\<close> callback.
\<close>

definition settle :: "Config \<Rightarrow> js_error + unit \<Rightarrow> Bot \<Rightarrow> Account \<Rightarrow> Account \<times> event list" where
  "settle config result bt account =
     (case (case result of
              Inl e \<Rightarrow> onRejected e account
            | Inr u \<Rightarrow>
                (case onFulfilled bt account of
                   (Inr u', a, evs) \<Rightarrow> (a, evs)
                 | (Inl e, a, evs) \<Rightarrow>
                     (case onRejected e a of (a', evs') \<Rightarrow> (a', evs @ evs')))) of
        (account1, evs1) \<Rightarrow> (account1, evs1 @ onFinally config account1))"

text \<open>
  One iteration of the loop of \<^verbatim>\<open>main\<close> (lines 42-71) together with the run of the task
  it queues: the account as the handlers leave it, and the trace.
\<close>

definition processAccount ::
  "Config \<Rightarrow> Account \<Rightarrow> string option \<Rightarrow> (nat \<Rightarrow> Attempt) \<Rightarrow> Account \<times> event list" where
  "processAccount config account p env =
     (case task env (newBot p) of
        (result, bt, evs) \<Rightarrow>
          (case settle config result bt account of
             (account1, evs1) \<Rightarrow> (account1, evs @ evs1)))"

text \<open>
  Modelled from the spec: the work queue (the package p-queue, which is not under src/).
  In the spec every submitted task is started, in submission order, and settles, and the
  failure of one task does not abort the others. \<open>mainLoop\<close> is the loop of
  \<^verbatim>\<open>main\<close> (lines 41-71) on such a queue, for a run in which every task settles and no
  call of \<^verbatim>\<open>cleanAccount\<close> throws: the tasks of different accounts share no mutable
  state (each has its own account record and its own bot), so the result is given account
  by account, in submission order; \<open>env i\<close> is what the remote service answers to the
  account submitted as number \<open>i\<close>. Not represented: when the queue starts each task,
  the order in which the tasks settle, when \<^verbatim>\<open>queue.onIdle()\<close> resolves relative to the
  callbacks of the last task, and the end of the process when a \<^verbatim>\<open>finally\<close> callback
  throws.
\<close>

fun mainLoop ::
  "Config \<Rightarrow> string list \<Rightarrow> (nat \<Rightarrow> nat \<Rightarrow> Attempt) \<Rightarrow> nat \<Rightarrow> Account list
     \<Rightarrow> (Account \<times> event list) list" where
  "mainLoop config proxies env index [] = []"
| "mainLoop config proxies env index (account # rest) =
     processAccount config account (pickProxy proxies index) (env index)
       # mainLoop config proxies env (Suc index) rest"

text \<open>
  \<^verbatim>\<open>main\<close> (lines 26-79) for a configuration and a proxy list already read: the queue's
  options and the outcome of every account in a run as \<open>mainLoop\<close> describes it, or the
  error that \<^verbatim>\<open>readAccounts\<close> throws.
\<close>

definition main ::
  "Config \<Rightarrow> filesystem \<Rightarrow> string list \<Rightarrow> (nat \<Rightarrow> nat \<Rightarrow> Attempt)
     \<Rightarrow> js_error + QueueOptions \<times> (Account \<times> event list) list" where
  "main config fs proxies env =
     (case readAccounts fs of
        Inl e \<Rightarrow> Inl e
      | Inr accounts \<Rightarrow> Inr (queueOptions proxies, mainLoop config proxies env 0 accounts))"

section \<open>Archival\<close>

text \<open>The string values of the enum \<^verbatim>\<open>AccountStatus\<close> (account.interface.ts, lines 10-15).\<close>

fun statusValue :: "AccountStatus \<Rightarrow> string" where
  "statusValue Active = ''active''"
| "statusValue Banned = ''banned''"
| "statusValue Limited = ''limited''"
| "statusValue Unknown = ''unknown''"

text \<open>\<^verbatim>\<open>path.basename\<close> of a path that does not end with a separator.\<close>

definition basename :: "string \<Rightarrow> string" where
  "basename p = rev (takeWhile (\<lambda>c. c \<noteq> CHR ''/'') (rev p))"

text \<open>The entries of a directory without what is stored at the path \<open>p\<close>.\<close>

fun removePath :: "string \<Rightarrow> string \<Rightarrow> (string \<times> node) list \<Rightarrow> (string \<times> node) list" where
  "removePath entityPath p [] = []"
| "removePath entityPath p ((entity, File t) # rest) =
     (if join entityPath entity = p then removePath entityPath p rest
      else (entity, File t) # removePath entityPath p rest)"
| "removePath entityPath p ((entity, Directory es) # rest) =
     (if join entityPath entity = p then removePath entityPath p rest
      else (entity, Directory (removePath (join entityPath entity) p es))
             # removePath entityPath p rest)"

text \<open>
  \<^verbatim>\<open>fs.renameSync(p, path.resolve(directoryPath, path.basename(p)))\<close>, as lines 178, 181,
  184, 187 and 190, for a directory outside the farms directory: it throws when nothing is
  stored at \<open>p\<close>; otherwise \<open>p\<close> leaves the farms directory, and the move is added to the
  moves made so far, as the pair of the old and the new path. What is stored under the
  cleaned directory is not represented.
\<close>

definition moveFile ::
  "string \<Rightarrow> filesystem \<times> (string \<times> string) list \<Rightarrow> string
     \<Rightarrow> js_error + filesystem \<times> (string \<times> string) list" where
  "moveFile directoryPath st p =
     (if existsSync (fst st) p
      then Inr ((fst st)\<lparr>farmsDirectory :=
                   removePath (farmsDirectoryPath (fst st)) p (farmsDirectory (fst st))\<rparr>,
                snd st @ [(p, join directoryPath (basename p))])
      else Inl ENOENT)"

text \<open>\<^verbatim>\<open>if (fs.existsSync(p)) fs.renameSync(p, ...)\<close>, as lines 181, 184, 187 and 190.\<close>

definition moveIfExists ::
  "string \<Rightarrow> filesystem \<times> (string \<times> string) list \<Rightarrow> string
     \<Rightarrow> js_error + filesystem \<times> (string \<times> string) list" where
  "moveIfExists directoryPath st p =
     (if existsSync (fst st) p then moveFile directoryPath st p else Inr st)"

text \<open>
  \<^verbatim>\<open>cleanAccount\<close> (lines 173-191), with \<^verbatim>\<open>cleanedDirectoryPath\<close> as a parameter: the file
  system afterwards and the moves made, or the error thrown. The credential file is moved
  without a test that it exists (line 178); the four sidecar files are moved when they
  exist. Line 175, which creates the target directory when it is missing, is not
  represented.
\<close>

definition cleanAccount ::
  "string \<Rightarrow> filesystem \<Rightarrow> Account \<Rightarrow> js_error + filesystem \<times> (string \<times> string) list" where
  "cleanAccount cleanedDirectoryPath fs account =
     (let directoryPath = join cleanedDirectoryPath (statusValue (status account)) in
      case moveFile directoryPath (fs, []) (id_acc account @ ''.json'') of
        Inl e \<Rightarrow> Inl e
      | Inr st1 \<Rightarrow>
          (case moveIfExists directoryPath st1 (id_acc account @ ''.db'') of
             Inl e \<Rightarrow> Inl e
           | Inr st2 \<Rightarrow>
               (case moveIfExists directoryPath st2 (id_acc account @ ''.mafile'') of
                  Inl e \<Rightarrow> Inl e
                | Inr st3 \<Rightarrow>
                    (case moveIfExists directoryPath st3 (id_acc account @ ''.maFile'') of
                       Inl e \<Rightarrow> Inl e
                     | Inr st4 \<Rightarrow> moveIfExists directoryPath st4 (id_acc account @ ''.bin'')))))"

section \<open>Reading a trace and a file system\<close>

text \<open>The statuses written to \<^verbatim>\<open>account.status\<close>, in order.\<close>

definition statusWrites :: "event list \<Rightarrow> AccountStatus list" where
  "statusWrites evs =
     concat (map (\<lambda>ev. case ev of StatusWritten s \<Rightarrow> [s] | other \<Rightarrow> []) evs)"

text \<open>The calls of \<^verbatim>\<open>bot.start()\<close> and the waits between them, in order.\<close>

fun isScheduleEvent :: "event \<Rightarrow> bool" where
  "isScheduleEvent StartCalled = True"
| "isScheduleEvent (Waited d) = True"
| "isScheduleEvent ev = False"

definition schedule :: "event list \<Rightarrow> event list" where
  "schedule evs = filter isScheduleEvent evs"

text \<open>
  Whether \<^verbatim>\<open>bot.start()\<close> throws under the given answers of the remote service, and the
  number of attempts that fail before the first success among the four attempts that the
  retry options allow.
\<close>

definition startFails :: "Attempt \<Rightarrow> bool" where
  "startFails a = isl (fst (start (newBot None) a))"

definition failedAttempts :: "(nat \<Rightarrow> Attempt) \<Rightarrow> nat" where
  "failedAttempts env = length (takeWhile (\<lambda>n. startFails (env n)) [0, 1, 2, 3])"

text \<open>
  A sidecar candidate yields nothing: the path does not exist, or it is a file of JSON
  text in which the secret expression is not truthy.
\<close>

definition yieldsNothing :: "filesystem \<Rightarrow> string \<Rightarrow> (json \<Rightarrow> json option) \<Rightarrow> bool" where
  "yieldsNothing fs p extract =
     (case lookup fs p of
        None \<Rightarrow> True
      | Some (File (JSONText v)) \<Rightarrow> \<not> truthyU (extract v)
      | Some other \<Rightarrow> False)"

text \<open>
  A credential file is incomplete: it is JSON text, and the parsed value, its
  \<open>SteamLogin\<close> or its \<open>SteamPassword\<close> is missing or falsy (the test of line 105).
\<close>

definition incomplete :: "filesystem \<Rightarrow> string \<Rightarrow> bool" where
  "incomplete fs p =
     (case readJSON fs p of
        Inl e \<Rightarrow> False
      | Inr json \<Rightarrow>
          \<not> (truthy json \<and> truthyU (getProp json ''SteamLogin'')
               \<and> truthyU (getProp json ''SteamPassword'')))"

section \<open>Example inputs\<close>

definition exampleAccount :: Account where
  "exampleAccount =
     \<lparr>id_acc = ''farms/a1'', status = Active, username = JString ''user1'',
      password = JString ''pw1'', secret = None\<rparr>"

definition togglesOff :: Config where
  "togglesOff = \<lparr>CleanLimitedAccounts = False, CleanBannedAccounts = False\<rparr>"

definition failingAttempt :: Attempt where
  "failingAttempt =
     \<lparr>tokenFailure = Some (Error ''Session timed out'' None), cookiesFailure = None,
      supportmessages = Inr [], levelText = Inr (ParsedLevel (Num 7))\<rparr>"

definition limitedAttempt :: Attempt where
  "limitedAttempt =
     \<lparr>tokenFailure = None, cookiesFailure = None, supportmessages = Inr ''No messages'',
      levelText = Inr (ParsedLevel (Num 0))\<rparr>"

definition activeAttempt :: Attempt where
  "activeAttempt =
     \<lparr>tokenFailure = None, cookiesFailure = None, supportmessages = Inr ''No messages'',
      levelText = Inr (ParsedLevel (Num 5))\<rparr>"

definition bannedAttempt :: Attempt where
  "bannedAttempt =
     \<lparr>tokenFailure = None, cookiesFailure = None,
      supportmessages = Inr ''Notice: Account functionality has been restricted.'',
      levelText = Inr (ParsedLevel (Num 0))\<rparr>"

definition alwaysFails :: "nat \<Rightarrow> Attempt" where
  "alwaysFails n = failingAttempt"

definition secondTrySucceeds :: "nat \<Rightarrow> Attempt" where
  "secondTrySucceeds n = (if n = 0 then failingAttempt else activeAttempt)"

definition exampleEnv :: "nat \<Rightarrow> nat \<Rightarrow> Attempt" where
  "exampleEnv i n =
     (if i = 0 then limitedAttempt
      else if i = 1 then failingAttempt
      else if i = 2 then bannedAttempt
      else secondTrySucceeds n)"

definition credentials :: "string \<Rightarrow> string \<Rightarrow> node" where
  "credentials login pass =
     File (JSONText (JObject [(''SteamLogin'', JString login), (''SteamPassword'', JString pass)]))"

text \<open>A credential file that is not JSON, followed by a well-formed one.\<close>

definition malformedFarm :: filesystem where
  "malformedFarm =
     \<lparr>farmsDirectoryPath = ''farms'',
      farmsDirectory = [(''bad.json'', File NotJSON), (''good.json'', credentials ''u'' ''p'')]\<rparr>"

text \<open>A credential file without a password, followed by a well-formed one.\<close>

definition incompleteFarm :: filesystem where
  "incompleteFarm =
     \<lparr>farmsDirectoryPath = ''farms'',
      farmsDirectory =
        [(''nopass.json'', File (JSONText (JObject [(''SteamLogin'', JString ''u0'')]))),
         (''good.json'', credentials ''u'' ''p'')]\<rparr>"

text \<open>
  Four accounts and their sidecar files: \<open>a\<close> has a secret in its \<^verbatim>\<open>.db\<close> and a
  \<^verbatim>\<open>.mafile\<close> that is not JSON; \<open>b\<close> has a \<^verbatim>\<open>.db\<close> without a secret, a secret in its
  \<^verbatim>\<open>.mafile\<close> and a \<^verbatim>\<open>.maFile\<close> that is not JSON; \<open>c\<close> has an empty secret in its
  \<^verbatim>\<open>.mafile\<close> and a secret in its \<^verbatim>\<open>.maFile\<close>; \<open>d\<close> has no sidecar.
\<close>

definition sidecarFarm :: filesystem where
  "sidecarFarm =
     \<lparr>farmsDirectoryPath = ''farms'',
      farmsDirectory =
        [(''a.json'', credentials ''ua'' ''pa''),
         (''a.db'', File (JSONText (JObject
             [(''_MobileAuthenticator'', JObject [(''shared_secret'', JString ''S1'')])]))),
         (''a.mafile'', File NotJSON),
         (''b.json'', credentials ''ub'' ''pb''),
         (''b.db'', File (JSONText (JObject []))),
         (''b.mafile'', File (JSONText (JObject [(''shared_secret'', JString ''S2'')]))),
         (''b.maFile'', File NotJSON),
         (''c.json'', credentials ''uc'' ''pc''),
         (''c.mafile'', File (JSONText (JObject [(''shared_secret'', JString [])]))),
         (''c.maFile'', File (JSONText (JObject [(''shared_secret'', JString ''S3'')]))),
         (''d.json'', credentials ''ud'' ''pd'')]\<rparr>"

definition freshAccount :: "string \<Rightarrow> Account" where
  "freshAccount i =
     \<lparr>id_acc = i, status = Active, username = JString ''u'', password = JString ''p'',
      secret = None\<rparr>"

text \<open>
  A credential file in a directory whose name holds \<open>.json\<close>, followed by a credential
  file beside that directory; and the two accounts that the loader makes of them.
\<close>

definition nestedFarm :: filesystem where
  "nestedFarm =
     \<lparr>farmsDirectoryPath = ''farms'',
      farmsDirectory =
        [(''old.json'', Directory [(''a1.json'', credentials ''u1'' ''p1'')]),
         (''z.json'', credentials ''u2'' ''p2'')]\<rparr>"

definition nestedAccount :: Account where
  "nestedAccount =
     \<lparr>id_acc = ''farms/old/a1.json'', status = Active, username = JString ''u1'',
      password = JString ''p1'', secret = None\<rparr>"

definition laterAccount :: Account where
  "laterAccount =
     \<lparr>id_acc = ''farms/z'', status = Active, username = JString ''u2'',
      password = JString ''p2'', secret = None\<rparr>"

section \<open>Facts about one call of start and about the retry loop\<close>

lemma start_cases:
  "(\<exists>b' bs l. start b a = (Inr (), b', [StartCalled]) \<and> bans b' = Some bs \<and> level b' = Some l)
   \<or> (\<exists>e b'. start b a = (Inl e, b', [StartCalled, AgentDestroyed]))"
  by (simp add: start_def startFailed_def stop_def retrieveToken_def retrieveCookies_def
        retriveBansInfo_def retrieveProfileLevel_def
      split: option.splits sum.splits level_text.splits)

text \<open>Whether a call of start throws, and what it throws, does not depend on the bot's fields.\<close>

lemma start_result_indep: "fst (start b a) = fst (start b0 a)"
  by (simp add: start_def startFailed_def stop_def retrieveToken_def retrieveCookies_def
        retriveBansInfo_def retrieveProfileLevel_def
      split: option.splits sum.splits level_text.splits)

lemma start_fails:
  assumes "startFails a"
  shows "\<exists>e b'. start b a = (Inl e, b', [StartCalled, AgentDestroyed])"
proof -
  have "isl (fst (start b a))"
    using assms start_result_indep [of b a "newBot None"] by (simp add: startFails_def)
  then show ?thesis
    using start_cases [of b a] by auto
qed

lemma start_succeeds:
  assumes "\<not> startFails a"
  shows "\<exists>b' bs l. start b a = (Inr (), b', [StartCalled]) \<and> bans b' = Some bs \<and> level b' = Some l"
proof -
  have "\<not> isl (fst (start b a))"
    using assms start_result_indep [of b a "newBot None"] by (simp add: startFails_def)
  then show ?thesis
    using start_cases [of b a] by auto
qed

lemma createTimeout_fixed: "createTimeout retryOptions n = 30000"
proof -
  have "(1::nat) \<le> 2 ^ n" by simp
  then have "(30000::nat) * 1 \<le> 30000 * 2 ^ n" by (rule mult_le_mono2)
  then have le: "(30000::nat) \<le> 30000 * 2 ^ n" by simp
  have "min ((30000::nat) * 2 ^ n) 30000 = 30000"
    using le by (rule min_absorb2)
  then show ?thesis
    by (simp add: createTimeout_def retryOptions_def)
qed

lemma statusWrites_append: "statusWrites (xs @ ys) = statusWrites xs @ statusWrites ys"
  by (simp add: statusWrites_def)

lemma schedule_append: "schedule (xs @ ys) = schedule xs @ schedule ys"
  by (simp add: schedule_def)

text \<open>
  The retry loop around start, with \<open>left\<close> retries remaining before attempt \<open>n\<close>: its
  calls and waits alternate, every wait is 30000 ms, it writes no status, a success has
  set both signals, and a failure is the failure of the last allowed attempt.
\<close>

lemma pRetry_start:
  "pRetry left n retryOptions (\<lambda>k b. start b (env k)) b = (result, b', evs) \<Longrightarrow>
     schedule evs =
       StartCalled # concat (replicate (count_list evs StartCalled - 1) [Waited 30000, StartCalled])
     \<and> 1 \<le> count_list evs StartCalled \<and> count_list evs StartCalled \<le> Suc left
     \<and> statusWrites evs = []
     \<and> (\<forall>u. result = Inr u \<longrightarrow> (\<exists>bs l. bans b' = Some bs \<and> level b' = Some l))
     \<and> (\<forall>e. result = Inl e \<longrightarrow>
           count_list evs StartCalled = Suc left
           \<and> (\<forall>b0. fst (start b0 (env (n + left))) = Inl e))"
proof (induction left arbitrary: n b result b' evs)
  case 0
  then show ?case
    using start_cases [of b "env n"] start_result_indep [of b "env n"]
    by (auto simp add: schedule_def statusWrites_def)
next
  case (Suc left)
  show ?case
  proof (cases "startFails (env n)")
    case False
    then obtain b1 bs l where s: "start b (env n) = (Inr (), b1, [StartCalled])"
      "bans b1 = Some bs" "level b1 = Some l"
      using start_succeeds by blast
    with Suc.prems show ?thesis
      by (auto simp add: schedule_def statusWrites_def)
  next
    case True
    then obtain e b1 where s: "start b (env n) = (Inl e, b1, [StartCalled, AgentDestroyed])"
      using start_fails by blast
    obtain r2 b2 evs2 where
      r: "pRetry left (Suc n) retryOptions (\<lambda>k b. start b (env k)) b1 = (r2, b2, evs2)"
      using prod_cases3 by blast
    from Suc.prems s r have eq: "result = r2" "b' = b2"
      "evs = [StartCalled, AgentDestroyed] @ Waited 30000 # evs2"
      by (simp_all add: createTimeout_fixed)
    note ih = Suc.IH [OF r]
    from ih obtain m where m: "count_list evs2 StartCalled = Suc m"
      by (cases "count_list evs2 StartCalled") auto
    show ?thesis
      using ih m unfolding eq
      by (simp add: schedule_append statusWrites_append) (simp add: schedule_def statusWrites_def)
  qed
qed

text \<open>A fulfilled task has set both signals.\<close>

lemma task_fulfilled_signals:
  "task env b = (Inr u, b', evs) \<Longrightarrow> \<exists>bs l. bans b' = Some bs \<and> level b' = Some l"
  using pRetry_start [of 3 0 env b "Inr u" b' evs]
  by (simp add: task_def retryOptions_def)

text \<open>The number of releases inside the retry loop is the number of attempts that failed.\<close>

lemma pRetry_destroyed:
  "count_list (snd (snd (pRetry left n retryOptions (\<lambda>k b. start b (env k)) b))) AgentDestroyed
     = length (takeWhile (\<lambda>k. startFails (env k)) [n ..< n + Suc left])"
proof (induction left arbitrary: n b)
  case 0
  show ?case
  proof (cases "startFails (env n)")
    case True
    then obtain e b1 where "start b (env n) = (Inl e, b1, [StartCalled, AgentDestroyed])"
      using start_fails by blast
    with True show ?thesis by simp
  next
    case False
    then obtain b1 where "start b (env n) = (Inr (), b1, [StartCalled])"
      using start_succeeds by blast
    with False show ?thesis by simp
  qed
next
  case (Suc left)
  have up: "[n ..< n + Suc (Suc left)] = n # [Suc n ..< Suc n + Suc left]"
    by (simp add: upt_conv_Cons)
  show ?case
  proof (cases "startFails (env n)")
    case True
    then obtain e b1 where s: "start b (env n) = (Inl e, b1, [StartCalled, AgentDestroyed])"
      using start_fails by blast
    obtain r2 b2 evs2 where
      r: "pRetry left (Suc n) retryOptions (\<lambda>k b. start b (env k)) b1 = (r2, b2, evs2)"
      using prod_cases3 by blast
    have "count_list evs2 AgentDestroyed
            = length (takeWhile (\<lambda>k. startFails (env k)) [Suc n ..< Suc n + Suc left])"
      using Suc.IH [of "Suc n" b1] r by simp
    with True s r show ?thesis
      unfolding up by simp
  next
    case False
    then obtain b1 where "start b (env n) = (Inr (), b1, [StartCalled])"
      using start_succeeds by blast
    with False show ?thesis
      unfolding up by simp
  qed
qed

lemma task_destroyed: "count_list (snd (snd (task env b))) AgentDestroyed = failedAttempts env"
proof -
  have "[0 ..< 0 + Suc 3] = [0, 1, 2, 3::nat]"
    by (simp add: upt_conv_Cons)
  then show ?thesis
    using pRetry_destroyed [of 3 0 env b]
    by (simp add: task_def failedAttempts_def retryOptions_def)
qed

section \<open>Facts about the completion handlers\<close>

lemma settle_status:
  "fst (settle config result bt account)
     = account\<lparr>status := status (fst (settle config result bt account))\<rparr>
   \<and> statusWrites (snd (settle config result bt account))
       = [status (fst (settle config result bt account))]"
  by (cases result; cases "bans bt")
     (simp_all add: settle_def onRejected_def onFulfilled_def onFinally_def stop_def
        statusWrites_def Let_def)

lemma settle_destroyed: "count_list (snd (settle config result bt account)) AgentDestroyed = 1"
  by (cases result; cases "bans bt")
     (simp_all add: settle_def onRejected_def onFulfilled_def onFinally_def stop_def Let_def)

lemma processAccount_status:
  "fst (processAccount config account p env)
     = account\<lparr>status := status (fst (processAccount config account p env))\<rparr>
   \<and> statusWrites (snd (processAccount config account p env))
       = [status (fst (processAccount config account p env))]"
proof -
  obtain result bt evs where t: "task env (newBot p) = (result, bt, evs)"
    using prod_cases3 by blast
  obtain a1 evs1 where s: "settle config result bt account = (a1, evs1)"
    by (cases "settle config result bt account") blast
  have w: "statusWrites evs = []"
    using t pRetry_start [of 3 0 env "newBot p" result bt evs]
    by (simp add: task_def retryOptions_def)
  have "a1 = account\<lparr>status := status a1\<rparr> \<and> statusWrites evs1 = [status a1]"
    using settle_status [of config result bt account] s by simp
  then show ?thesis
    using t s w by (simp add: processAccount_def statusWrites_append)
qed

section \<open>Facts about the account loader\<close>

lemma readAccountsLoop_skip:
  "readJSON fs jsonPath = Inr json \<Longrightarrow>
   \<not> (truthy json \<and> truthyU (getProp json ''SteamLogin'')
        \<and> truthyU (getProp json ''SteamPassword'')) \<Longrightarrow>
   readAccountsLoop fs (jsonPath # rest) accounts = readAccountsLoop fs rest accounts"
  by auto

lemma readAccountsLoop_cong:
  assumes "\<And>acc. readAccountsLoop fs rest acc = readAccountsLoop fs rest' acc"
  shows "readAccountsLoop fs (p # rest) accounts = readAccountsLoop fs (p # rest') accounts"
  using assms by (simp split: sum.splits option.splits prod.splits)

lemma take5_json: "xs \<noteq> [] \<Longrightarrow> take 5 (xs @ ''.json'') = take 5 (xs @ ''.jso'')"
proof -
  assume "xs \<noteq> []"
  then have l: "5 \<le> length (xs @ ''.jso'')" by (cases xs) simp_all
  have "take 5 (xs @ ''.json'') = take 5 ((xs @ ''.jso'') @ ''n'')" by simp
  also have "\<dots> = take 5 (xs @ ''.jso'')" using l by (simp only: take_append) simp
  finally show ?thesis .
qed

lemma startsWith_json:
  assumes "xs \<noteq> []"
  shows "js_startsWith (xs @ ''.json'') ''.json'' = js_startsWith (xs @ ''.jso'') ''.json''"
proof -
  have len: "length ''.json'' = 5" by simp
  show ?thesis
    unfolding js_startsWith_def len using take5_json [OF assms] by (simp only:)
qed

text \<open>
  When \<open>.json\<close> occurs in a path only as its extension, the id is the path without the
  extension.
\<close>

lemma accountId_strips_extension:
  "\<not> js_includes (base @ ''.jso'') ''.json'' \<Longrightarrow> accountId (base @ ''.json'') = base"
proof (induction base)
  case Nil
  show ?case by (simp add: accountId_def js_startsWith_def)
next
  case (Cons c cs)
  from Cons.prems have a: "\<not> js_startsWith (c # cs @ ''.jso'') ''.json''"
    and b: "\<not> js_includes (cs @ ''.jso'') ''.json''"
    by simp_all
  have "\<not> js_startsWith (c # cs @ ''.json'') ''.json''"
    using a startsWith_json [of "c # cs"] by simp
  then show ?case
    using Cons.IH [OF b] by (simp add: accountId_def)
qed

lemma accountId_example: "accountId ''farms/a1.json'' = ''farms/a1''"
  by (simp add: accountId_def js_startsWith_def)

section \<open>Facts about archival\<close>

lemma moveIfExists_returns: "\<exists>st1. moveIfExists directoryPath st p = Inr st1"
  by (simp add: moveIfExists_def moveFile_def)

text \<open>\<open>cleanAccount\<close> throws exactly when nothing is stored at the id followed by \<open>.json\<close>.\<close>

lemma cleanAccount_throws_iff:
  "(\<exists>e. cleanAccount cleanedDirectoryPath fs account = Inl e)
     = (\<not> existsSync fs (id_acc account @ ''.json''))"
proof (cases "existsSync fs (id_acc account @ ''.json'')")
  case False
  then show ?thesis
    by (simp add: cleanAccount_def moveFile_def Let_def)
next
  case True
  let ?d = "join cleanedDirectoryPath (statusValue (status account))"
  obtain st1 where s1: "moveFile ?d (fs, []) (id_acc account @ ''.json'') = Inr st1"
    using True by (simp add: moveFile_def)
  obtain st2 where s2: "moveIfExists ?d st1 (id_acc account @ ''.db'') = Inr st2"
    using moveIfExists_returns by blast
  obtain st3 where s3: "moveIfExists ?d st2 (id_acc account @ ''.mafile'') = Inr st3"
    using moveIfExists_returns by blast
  obtain st4 where s4: "moveIfExists ?d st3 (id_acc account @ ''.maFile'') = Inr st4"
    using moveIfExists_returns by blast
  obtain st5 where s5: "moveIfExists ?d st4 (id_acc account @ ''.bin'') = Inr st5"
    using moveIfExists_returns by blast
  have "cleanAccount cleanedDirectoryPath fs account = Inr st5"
    using s1 s2 s3 s4 s5 by (simp add: cleanAccount_def Let_def)
  with True show ?thesis by simp
qed

text \<open>The account \<open>b\<close> of the sidecar farm, archived as Banned.\<close>

lemma cleanAccount_example:
  "cleanAccount ''cleaned'' sidecarFarm ((freshAccount ''farms/b'')\<lparr>status := Banned\<rparr>)
     = Inr (\<lparr>farmsDirectoryPath = ''farms'',
             farmsDirectory =
               [(''a.json'', credentials ''ua'' ''pa''),
                (''a.db'', File (JSONText (JObject
                    [(''_MobileAuthenticator'', JObject [(''shared_secret'', JString ''S1'')])]))),
                (''a.mafile'', File NotJSON),
                (''c.json'', credentials ''uc'' ''pc''),
                (''c.mafile'', File (JSONText (JObject [(''shared_secret'', JString [])]))),
                (''c.maFile'', File (JSONText (JObject [(''shared_secret'', JString ''S3'')]))),
                (''d.json'', credentials ''ud'' ''pd'')]\<rparr>,
            [(''farms/b.json'', ''cleaned/banned/b.json''),
             (''farms/b.db'', ''cleaned/banned/b.db''),
             (''farms/b.mafile'', ''cleaned/banned/b.mafile''),
             (''farms/b.maFile'', ''cleaned/banned/b.maFile'')])"
  by (simp add: cleanAccount_def moveFile_def moveIfExists_def existsSync_def lookup_def
        sidecarFarm_def freshAccount_def credentials_def join_def basename_def Let_def)

section \<open>Facts about the example inputs\<close>

lemma startFails_examples:
  "startFails failingAttempt" "\<not> startFails activeAttempt" "\<not> startFails limitedAttempt"
  by (simp_all add: startFails_def failingAttempt_def activeAttempt_def limitedAttempt_def
        start_def startFailed_def retrieveToken_def retrieveCookies_def retriveBansInfo_def
        retrieveProfileLevel_def)

lemma alwaysFails_task:
  "task alwaysFails (newBot None) =
     (Inl (Error ''Failed to start''
             (Some (Error ''Failed to retrieve token''
                      (Some (Error ''Session timed out'' None))))),
      newBot None,
      [StartCalled, AgentDestroyed, Waited 30000, StartCalled, AgentDestroyed, Waited 30000,
       StartCalled, AgentDestroyed, Waited 30000, StartCalled, AgentDestroyed])"
  by (simp add: task_def retryOptions_def numeral_3_eq_3 alwaysFails_def failingAttempt_def
        start_def retrieveToken_def startFailed_def stop_def createTimeout_def)

lemma alwaysFails_outcome:
  "processAccount getDefaultConfig exampleAccount None alwaysFails
     = (exampleAccount\<lparr>status := Unknown\<rparr>,
        [StartCalled, AgentDestroyed, Waited 30000, StartCalled, AgentDestroyed, Waited 30000,
         StartCalled, AgentDestroyed, Waited 30000, StartCalled, AgentDestroyed,
         StatusWritten Unknown,
         LoggedFailed (JString ''user1'')
           (Error ''Failed to start''
              (Some (Error ''Failed to retrieve token''
                       (Some (Error ''Session timed out'' None))))),
         AgentDestroyed, CleanAccountCalled (exampleAccount\<lparr>status := Unknown\<rparr>)])"
  by (simp add: processAccount_def task_def retryOptions_def numeral_3_eq_3 alwaysFails_def
        failingAttempt_def start_def retrieveToken_def startFailed_def settle_def
        onRejected_def onFinally_def stop_def exampleAccount_def getDefaultConfig_def
        createTimeout_def)

lemma incompleteFarm_paths:
  "filter (\<lambda>f. js_endsWith f ''.json'')
     (readDirectory (farmsDirectoryPath incompleteFarm) (farmsDirectory incompleteFarm))
   = [''farms/nopass.json'', ''farms/good.json'']"
  by (simp add: incompleteFarm_def credentials_def join_def js_endsWith_def)

lemma incompleteFarm_nopass:
  "readJSON incompleteFarm ''farms/nopass.json'' = Inr (JObject [(''SteamLogin'', JString ''u0'')])"
  by (simp add: incompleteFarm_def credentials_def join_def readJSON_def readFileSync_def
        lookup_def)

lemma incompleteFarm_good:
  "readAccountsLoop incompleteFarm [''farms/good.json''] []
     = Inr [\<lparr>id_acc = ''farms/good'', status = Active, username = JString ''u'',
              password = JString ''p'', secret = None\<rparr>]"
  by (simp add: incompleteFarm_def credentials_def join_def readJSON_def readFileSync_def
        lookup_def accountId_def js_startsWith_def readSecret_def secretFromDb_def
        secretFromMafile_def existsSync_def)

lemma sidecarFarm_lookups:
  "lookup sidecarFarm ''farms/a.db'' = Some (File (JSONText (JObject
      [(''_MobileAuthenticator'', JObject [(''shared_secret'', JString ''S1'')])])))"
  "lookup sidecarFarm ''farms/a.mafile'' = Some (File NotJSON)"
  "lookup sidecarFarm ''farms/b.db'' = Some (File (JSONText (JObject [])))"
  "lookup sidecarFarm ''farms/b.mafile''
     = Some (File (JSONText (JObject [(''shared_secret'', JString ''S2'')])))"
  "lookup sidecarFarm ''farms/b.maFile'' = Some (File NotJSON)"
  "lookup sidecarFarm ''farms/c.db'' = None"
  "lookup sidecarFarm ''farms/c.mafile''
     = Some (File (JSONText (JObject [(''shared_secret'', JString [])])))"
  "lookup sidecarFarm ''farms/c.maFile''
     = Some (File (JSONText (JObject [(''shared_secret'', JString ''S3'')])))"
  "lookup sidecarFarm ''farms/d.db'' = None"
  "lookup sidecarFarm ''farms/d.mafile'' = None"
  "lookup sidecarFarm ''farms/d.maFile'' = None"
  by (simp_all add: lookup_def sidecarFarm_def credentials_def join_def)

section \<open>The claims\<close>

subsection \<open>C1\<close>

text \<open>
  C1, as the code has it. An account whose status is Unknown passes the three guards of
  the \<open>finally\<close> callback whatever the toggles are, so \<open>cleanAccount\<close> is called with
  it; and whenever the processing of an account ends with the status Unknown, its trace
  holds that call.
\<close>

theorem unknown_account_is_archived:
  "(status account = Unknown \<longrightarrow>
      onFinally config account = [AgentDestroyed, CleanAccountCalled account])
   \<and> (status (fst (processAccount config account p env)) = Unknown \<longrightarrow>
        CleanAccountCalled (fst (processAccount config account p env))
          \<in> set (snd (processAccount config account p env)))"
  by (auto simp add: onFinally_def stop_def processAccount_def settle_def onRejected_def
        onFulfilled_def Let_def split: prod.splits sum.splits option.splits)

theorem unknown_account_is_archived_witness:
  "status (exampleAccount\<lparr>status := Unknown\<rparr>) = Unknown
   \<and> onFinally togglesOff (exampleAccount\<lparr>status := Unknown\<rparr>)
       = [AgentDestroyed, CleanAccountCalled (exampleAccount\<lparr>status := Unknown\<rparr>)]
   \<and> status (fst (processAccount getDefaultConfig exampleAccount None alwaysFails)) = Unknown
   \<and> CleanAccountCalled (exampleAccount\<lparr>status := Unknown\<rparr>)
       \<in> set (snd (processAccount getDefaultConfig exampleAccount None alwaysFails))"
  using unknown_account_is_archived [of "exampleAccount\<lparr>status := Unknown\<rparr>" togglesOff]
    unknown_account_is_archived [of exampleAccount getDefaultConfig None alwaysFails]
  by (simp add: alwaysFails_outcome)

text \<open>
  C1 as stated fails: with both toggles off, an account whose four attempts all fail ends
  Unknown and \<open>cleanAccount\<close> is called with it.
\<close>

theorem unknown_account_archived_toggles_off:
  "CleanAccountCalled (exampleAccount\<lparr>status := Unknown\<rparr>)
     \<in> set (snd (processAccount togglesOff exampleAccount None alwaysFails))"
  by (simp add: processAccount_def task_def retryOptions_def numeral_3_eq_3 alwaysFails_def
        failingAttempt_def start_def retrieveToken_def startFailed_def settle_def
        onRejected_def onFinally_def stop_def exampleAccount_def togglesOff_def)

subsection \<open>C2\<close>

text \<open>
  C2. The status that the completion handlers write: Unknown when the task was rejected;
  for a fulfilled task whose bans list is \<open>bs\<close>, Banned when \<open>bs\<close> is not empty,
  otherwise Limited when the level is the number 0, otherwise Active. With
  \<open>bans = ['x']\<close> and \<open>level = 0\<close> the status is Banned. (A fulfilled task always has
  a bans list, see \<open>pRetry_start\<close>.)
\<close>

theorem classifier_assigns_status:
  "status (fst (settle config (Inl e) bt account)) = Unknown
   \<and> (bans bt = Some bs \<longrightarrow>
        status (fst (settle config (Inr ()) bt account)) =
          (if bs \<noteq> [] then Banned
           else if level bt = Some (Num 0) then Limited
           else Active))
   \<and> status (fst (settle config (Inr ())
                 (bt\<lparr>bans := Some [''x''], level := Some (Num 0)\<rparr>) account)) = Banned"
  by (simp add: settle_def onRejected_def onFulfilled_def Let_def)

theorem classifier_assigns_status_witness:
  "status (fst (settle getDefaultConfig (Inr ())
      \<lparr>proxy = None, bans = Some [], level = Some (Num 0)\<rparr> exampleAccount)) = Limited
   \<and> status (fst (settle getDefaultConfig (Inr ())
      \<lparr>proxy = None, bans = Some [], level = Some (Num 5)\<rparr> exampleAccount)) = Active
   \<and> status (fst (settle getDefaultConfig (Inr ())
      \<lparr>proxy = None, bans = Some [''x''], level = Some (Num 0)\<rparr> exampleAccount)) = Banned
   \<and> status (fst (settle getDefaultConfig (Inl TypeError)
      \<lparr>proxy = None, bans = Some [], level = Some (Num 5)\<rparr> exampleAccount)) = Unknown"
  using
    classifier_assigns_status [of getDefaultConfig _
      "\<lparr>proxy = None, bans = Some [], level = Some (Num 0)\<rparr>" exampleAccount "[]"]
    classifier_assigns_status [of getDefaultConfig TypeError
      "\<lparr>proxy = None, bans = Some [], level = Some (Num 5)\<rparr>" exampleAccount "[]"]
    classifier_assigns_status [of getDefaultConfig _
      "\<lparr>proxy = None, bans = Some [''x''], level = Some (Num 0)\<rparr>" exampleAccount "[''x'']"]
  by simp

subsection \<open>C3\<close>

text \<open>
  C3. Not every account submitted to the queue has a status written. At a farm with a
  credential file in a directory named \<open>old.json\<close>, followed by the credential file
  \<open>z.json\<close>, and with no proxy (one slot, so the tasks run in submission order), the loader
  makes two accounts, the first with the id \<open>farms/old/a1.json\<close>. When its four logins
  fail, its status Unknown is written and its \<open>finally\<close> callback calls \<open>cleanAccount\<close>,
  which throws, because \<open>farms/old/a1.json.json\<close> does not exist. Nothing handles an
  error of the \<open>finally\<close> callback: the process ends with the second account submitted
  and no status written to it. (For an account whose callbacks run, exactly one status is
  written, once: \<open>settle_status\<close>, \<open>processAccount_status\<close>.)
\<close>

theorem archival_throws_for_nested_credential_file:
  "readAccounts nestedFarm = Inr [nestedAccount, laterAccount]
   \<and> processAccount getDefaultConfig nestedAccount (pickProxy [] 0) alwaysFails
       = (nestedAccount\<lparr>status := Unknown\<rparr>,
          [StartCalled, AgentDestroyed, Waited 30000, StartCalled, AgentDestroyed,
           Waited 30000, StartCalled, AgentDestroyed, Waited 30000, StartCalled,
           AgentDestroyed, StatusWritten Unknown,
           LoggedFailed (JString ''u1'')
             (Error ''Failed to start''
                (Some (Error ''Failed to retrieve token''
                         (Some (Error ''Session timed out'' None))))),
           AgentDestroyed, CleanAccountCalled (nestedAccount\<lparr>status := Unknown\<rparr>)])
   \<and> cleanAccount ''cleaned'' nestedFarm (nestedAccount\<lparr>status := Unknown\<rparr>) = Inl ENOENT"
proof (intro conjI)
  show "readAccounts nestedFarm = Inr [nestedAccount, laterAccount]"
    by (simp add: readAccounts_def nestedFarm_def credentials_def join_def js_endsWith_def
          readJSON_def readFileSync_def lookup_def accountId_def js_startsWith_def
          readSecret_def secretFromDb_def secretFromMafile_def existsSync_def
          nestedAccount_def laterAccount_def)
next
  show "processAccount getDefaultConfig nestedAccount (pickProxy [] 0) alwaysFails
       = (nestedAccount\<lparr>status := Unknown\<rparr>,
          [StartCalled, AgentDestroyed, Waited 30000, StartCalled, AgentDestroyed,
           Waited 30000, StartCalled, AgentDestroyed, Waited 30000, StartCalled,
           AgentDestroyed, StatusWritten Unknown,
           LoggedFailed (JString ''u1'')
             (Error ''Failed to start''
                (Some (Error ''Failed to retrieve token''
                         (Some (Error ''Session timed out'' None))))),
           AgentDestroyed, CleanAccountCalled (nestedAccount\<lparr>status := Unknown\<rparr>)])"
    by (simp add: processAccount_def pickProxy_def task_def retryOptions_def numeral_3_eq_3
          alwaysFails_def failingAttempt_def start_def retrieveToken_def startFailed_def
          settle_def onRejected_def onFinally_def stop_def nestedAccount_def
          getDefaultConfig_def createTimeout_def)
next
  show "cleanAccount ''cleaned'' nestedFarm (nestedAccount\<lparr>status := Unknown\<rparr>) = Inl ENOENT"
    by (simp add: cleanAccount_def moveFile_def existsSync_def lookup_def nestedFarm_def
          nestedAccount_def credentials_def join_def)
qed

subsection \<open>C4\<close>

text \<open>
  C4, as the code has it. The \<open>finally\<close> callback releases the bot's agent exactly once
  on every exit path, and \<open>start()\<close> itself releases it after each attempt that fails.
  The agent of a task is released once more than the task had failed attempts: exactly
  once when the first attempt succeeds.
\<close>

theorem stop_called_once_more_than_failed_attempts:
  "count_list (snd (processAccount config account p env)) AgentDestroyed
     = Suc (failedAttempts env)
   \<and> count_list (onFinally config account) AgentDestroyed = 1
   \<and> (\<not> startFails (env 0) \<longrightarrow>
        count_list (snd (processAccount config account p env)) AgentDestroyed = 1)"
proof -
  obtain result bt evs where t: "task env (newBot p) = (result, bt, evs)"
    using prod_cases3 by blast
  obtain a1 evs1 where s: "settle config result bt account = (a1, evs1)"
    by (cases "settle config result bt account") blast
  have "count_list evs AgentDestroyed = failedAttempts env"
    using task_destroyed [of env "newBot p"] t by simp
  moreover have "count_list evs1 AgentDestroyed = 1"
    using settle_destroyed [of config result bt account] s by simp
  ultimately have total:
    "count_list (snd (processAccount config account p env)) AgentDestroyed
       = Suc (failedAttempts env)"
    using t s by (simp add: processAccount_def)
  have once: "count_list (onFinally config account) AgentDestroyed = 1"
    by (simp add: onFinally_def stop_def)
  have "\<not> startFails (env 0) \<longrightarrow> failedAttempts env = 0"
    by (simp add: failedAttempts_def)
  with total once show ?thesis by simp
qed

theorem stop_called_once_more_than_failed_attempts_witness:
  "\<not> startFails (exampleEnv 0 0)
   \<and> count_list (snd (processAccount getDefaultConfig exampleAccount None (exampleEnv 0)))
        AgentDestroyed = 1
   \<and> count_list (snd (processAccount getDefaultConfig exampleAccount None secondTrySucceeds))
        AgentDestroyed = 2"
  using
    stop_called_once_more_than_failed_attempts
      [of getDefaultConfig exampleAccount None "exampleEnv 0"]
    stop_called_once_more_than_failed_attempts
      [of getDefaultConfig exampleAccount None secondTrySucceeds]
  by (simp add: failedAttempts_def secondTrySucceeds_def exampleEnv_def startFails_examples)

text \<open>
  C4 as stated fails: for a task whose four attempts all fail, the agent is released five
  times, not once.
\<close>

theorem stop_called_five_times:
  "count_list (snd (processAccount getDefaultConfig exampleAccount None alwaysFails))
     AgentDestroyed = 5"
  by (simp add: processAccount_def task_def retryOptions_def numeral_3_eq_3 alwaysFails_def
        failingAttempt_def start_def retrieveToken_def startFailed_def settle_def
        onRejected_def onFinally_def stop_def exampleAccount_def getDefaultConfig_def)

subsection \<open>C5\<close>

text \<open>
  C5, as the code has it. A credential file that is JSON but lacks a truthy
  \<open>SteamLogin\<close> or \<open>SteamPassword\<close> (or is itself a falsy value) is skipped silently:
  the loop goes on with the remaining paths and the accounts collected so far, and the
  loader returns what it would return if no such file were there. No account is made for
  the file and no error is raised.
\<close>

theorem incomplete_credentials_skipped:
  "(incomplete fs jsonPath \<longrightarrow>
      readAccountsLoop fs (jsonPath # rest) accounts = readAccountsLoop fs rest accounts)
   \<and> readAccountsLoop fs paths accounts
       = readAccountsLoop fs (filter (\<lambda>p. \<not> incomplete fs p) paths) accounts"
proof
  show "incomplete fs jsonPath \<longrightarrow>
      readAccountsLoop fs (jsonPath # rest) accounts = readAccountsLoop fs rest accounts"
    by (auto simp add: incomplete_def split: sum.splits)
next
  show "readAccountsLoop fs paths accounts
       = readAccountsLoop fs (filter (\<lambda>p. \<not> incomplete fs p) paths) accounts"
  proof (induction paths arbitrary: accounts)
    case Nil
    show ?case by simp
  next
    case (Cons p rest)
    show ?case
    proof (cases "incomplete fs p")
      case True
      then obtain json where j: "readJSON fs p = Inr json"
        "\<not> (truthy json \<and> truthyU (getProp json ''SteamLogin'')
          \<and> truthyU (getProp json ''SteamPassword''))"
        by (auto simp add: incomplete_def split: sum.splits)
      have "readAccountsLoop fs (p # rest) accounts = readAccountsLoop fs rest accounts"
        using j by (rule readAccountsLoop_skip)
      with True Cons.IH [of accounts] show ?thesis by simp
    next
      case False
      have "readAccountsLoop fs (p # rest) accounts
              = readAccountsLoop fs (p # filter (\<lambda>p. \<not> incomplete fs p) rest) accounts"
        using Cons.IH by (rule readAccountsLoop_cong)
      with False show ?thesis by simp
    qed
  qed
qed

theorem incomplete_credentials_skipped_witness:
  "incomplete incompleteFarm ''farms/nopass.json''
   \<and> readAccounts incompleteFarm
       = Inr [\<lparr>id_acc = ''farms/good'', status = Active, username = JString ''u'',
                password = JString ''p'', secret = None\<rparr>]"
proof -
  have missing: "incomplete incompleteFarm ''farms/nopass.json''"
    by (simp add: incomplete_def incompleteFarm_nopass)
  have skipped:
    "readAccountsLoop incompleteFarm [''farms/nopass.json'', ''farms/good.json''] []
       = readAccountsLoop incompleteFarm [''farms/good.json''] []"
    using incomplete_credentials_skipped
      [of incompleteFarm "''farms/nopass.json''" "[''farms/good.json'']" "[]"] missing
    by simp
  have "readAccounts incompleteFarm
          = readAccountsLoop incompleteFarm [''farms/nopass.json'', ''farms/good.json''] []"
    by (simp only: readAccounts_def incompleteFarm_paths)
  also have "\<dots> = readAccountsLoop incompleteFarm [''farms/good.json''] []"
    by (rule skipped)
  also have "\<dots> = Inr [\<lparr>id_acc = ''farms/good'', status = Active, username = JString ''u'',
                password = JString ''p'', secret = None\<rparr>]"
    by (rule incompleteFarm_good)
  finally show ?thesis
    using missing by simp
qed

text \<open>
  C5 as stated fails: a credential file that is not JSON is not skipped. The loader throws
  the syntax error and returns no account, not even the well-formed one that follows.
\<close>

theorem malformed_credentials_abort_loading:
  "readAccounts malformedFarm = Inl SyntaxError"
  by (simp add: readAccounts_def malformedFarm_def credentials_def join_def js_endsWith_def
        readJSON_def readFileSync_def lookup_def)

subsection \<open>C6\<close>

text \<open>
  C6. The task of line 46 calls \<open>start()\<close> at least once and at most 4 times (3 retries
  after the first attempt); between two calls it waits 30000 ms, the same for every
  attempt; and when it is rejected, four calls were made and the error is the one that
  the fourth call threw, as it threw it.
\<close>

theorem retry_four_attempts_fixed_delay:
  "task env b = (result, b', evs) \<Longrightarrow>
     retries retryOptions = 3
     \<and> createTimeout retryOptions n = 30000
     \<and> schedule evs =
         StartCalled #
         concat (replicate (count_list evs StartCalled - 1) [Waited 30000, StartCalled])
     \<and> 1 \<le> count_list evs StartCalled \<and> count_list evs StartCalled \<le> 4
     \<and> (\<forall>e. result = Inl e \<longrightarrow>
           count_list evs StartCalled = 4 \<and> (\<forall>b0. fst (start b0 (env 3)) = Inl e))"
  using pRetry_start [of 3 0 env b result b' evs] createTimeout_fixed [of n]
  by (simp add: task_def retryOptions_def)

theorem retry_four_attempts_fixed_delay_witness:
  "schedule (snd (snd (task alwaysFails (newBot None))))
     = [StartCalled, Waited 30000, StartCalled, Waited 30000, StartCalled, Waited 30000,
        StartCalled]
   \<and> fst (task alwaysFails (newBot None)) = fst (start (newBot None) (alwaysFails 3))"
  using retry_four_attempts_fixed_delay [OF alwaysFails_task, of 0]
  by (simp add: alwaysFails_task)

subsection \<open>C7\<close>

text \<open>
  C7. The batch driver gives the queue the same number for both caps: the number of
  proxies, or 1 when there is none; the interval is 30000 ms. The options that
  \<open>main\<close> returns are these.
\<close>

theorem queue_caps_from_proxy_count:
  "concurrency (queueOptions proxies) = max (length proxies) 1
   \<and> intervalCap (queueOptions proxies) = max (length proxies) 1
   \<and> interval (queueOptions proxies) = 30000
   \<and> (case main config fs proxies env of
         Inl e \<Rightarrow> True
       | Inr (q, outcomes) \<Rightarrow> q = queueOptions proxies)"
  by (cases proxies)
     (simp_all add: queueOptions_def Let_def max_def main_def split: sum.splits)

theorem queue_caps_from_proxy_count_witness:
  "concurrency (queueOptions [''p1'', ''p2'', ''p3'']) = 3
   \<and> intervalCap (queueOptions [''p1'', ''p2'', ''p3'']) = 3
   \<and> interval (queueOptions [''p1'', ''p2'', ''p3'']) = 30000
   \<and> concurrency (queueOptions []) = 1
   \<and> intervalCap (queueOptions []) = 1"
  using queue_caps_from_proxy_count [of "[''p1'', ''p2'', ''p3'']"]
    queue_caps_from_proxy_count [of "[]"]
  by simp

subsection \<open>C9\<close>

text \<open>
  C9. The account id is the path with its first occurrence of \<open>.json\<close> removed. For
  \<open>farms/a1.json\<close> that is \<open>farms/a1\<close> (\<open>accountId_example\<close>); for a credential
  file in a directory named \<open>old.json\<close> the extension stays and the directory changes,
  where the claim gives \<open>farms/old.json/a1\<close>.
\<close>

theorem accountId_removes_first_json_occurrence:
  "accountId ''farms/old.json/a1.json'' = ''farms/old/a1.json''
   \<and> accountId ''farms/old.json/a1.json'' \<noteq> ''farms/old.json/a1''"
  by (simp add: accountId_def js_startsWith_def)

subsection \<open>C10\<close>

text \<open>
  C10. For an account whose secret is still \<open>null\<close>: a truthy secret in the \<open>.db\<close> file
  is taken, whatever the other candidates hold; when the \<open>.db\<close> candidate yields
  nothing, a truthy secret in the \<open>.mafile\<close> file is taken, whatever the \<open>.maFile\<close>
  candidate holds; when both yield nothing, a truthy secret in the \<open>.maFile\<close> file is
  taken; when all three yield nothing, the account is unchanged and its secret stays
  \<open>null\<close>. A candidate that is not consulted may hold anything, also text that cannot be
  parsed.
\<close>

theorem sidecar_priority_order:
  assumes "secret account = None"
  shows
    "(lookup fs (id_acc account @ ''.db'') = Some (File (JSONText db))
        \<and> truthyU (dbSecret db) \<longrightarrow>
      readSecret fs account = Inr (account\<lparr>secret := dbSecret db\<rparr>))
     \<and> (yieldsNothing fs (id_acc account @ ''.db'') dbSecret
        \<and> lookup fs (id_acc account @ ''.mafile'') = Some (File (JSONText m))
        \<and> truthyU (mafileSecret m) \<longrightarrow>
      readSecret fs account = Inr (account\<lparr>secret := mafileSecret m\<rparr>))
     \<and> (yieldsNothing fs (id_acc account @ ''.db'') dbSecret
        \<and> yieldsNothing fs (id_acc account @ ''.mafile'') mafileSecret
        \<and> lookup fs (id_acc account @ ''.maFile'') = Some (File (JSONText m'))
        \<and> truthyU (mafileSecret m') \<longrightarrow>
      readSecret fs account = Inr (account\<lparr>secret := mafileSecret m'\<rparr>))
     \<and> (yieldsNothing fs (id_acc account @ ''.db'') dbSecret
        \<and> yieldsNothing fs (id_acc account @ ''.mafile'') mafileSecret
        \<and> yieldsNothing fs (id_acc account @ ''.maFile'') mafileSecret \<longrightarrow>
      readSecret fs account = Inr account)"
  using assms
  by (auto simp add: readSecret_def secretFromDb_def secretFromMafile_def yieldsNothing_def
        existsSync_def readJSON_def readFileSync_def
      split: option.splits node.splits file_text.splits)

theorem sidecar_priority_order_witness:
  "readSecret sidecarFarm (freshAccount ''farms/a'')
     = Inr ((freshAccount ''farms/a'')\<lparr>secret := Some (JString ''S1'')\<rparr>)
   \<and> readSecret sidecarFarm (freshAccount ''farms/b'')
     = Inr ((freshAccount ''farms/b'')\<lparr>secret := Some (JString ''S2'')\<rparr>)
   \<and> readSecret sidecarFarm (freshAccount ''farms/c'')
     = Inr ((freshAccount ''farms/c'')\<lparr>secret := Some (JString ''S3'')\<rparr>)
   \<and> readSecret sidecarFarm (freshAccount ''farms/d'') = Inr (freshAccount ''farms/d'')"
proof -
  have fresh: "secret (freshAccount i) = None" "id_acc (freshAccount i) = i" for i
    by (simp_all add: freshAccount_def)
  have a: "readSecret sidecarFarm (freshAccount ''farms/a'')
     = Inr ((freshAccount ''farms/a'')\<lparr>secret := Some (JString ''S1'')\<rparr>)"
    using sidecar_priority_order [OF fresh(1), of sidecarFarm "''farms/a''"
        "JObject [(''_MobileAuthenticator'', JObject [(''shared_secret'', JString ''S1'')])]"]
    by (simp add: fresh sidecarFarm_lookups dbSecret_def)
  have b: "readSecret sidecarFarm (freshAccount ''farms/b'')
     = Inr ((freshAccount ''farms/b'')\<lparr>secret := Some (JString ''S2'')\<rparr>)"
    using sidecar_priority_order [OF fresh(1), of sidecarFarm "''farms/b''" _
        "JObject [(''shared_secret'', JString ''S2'')]"]
    by (simp add: fresh sidecarFarm_lookups dbSecret_def mafileSecret_def yieldsNothing_def)
  have c: "readSecret sidecarFarm (freshAccount ''farms/c'')
     = Inr ((freshAccount ''farms/c'')\<lparr>secret := Some (JString ''S3'')\<rparr>)"
    using sidecar_priority_order [OF fresh(1), of sidecarFarm "''farms/c''" _ _
        "JObject [(''shared_secret'', JString ''S3'')]"]
    by (simp add: fresh sidecarFarm_lookups dbSecret_def mafileSecret_def yieldsNothing_def)
  have d: "readSecret sidecarFarm (freshAccount ''farms/d'') = Inr (freshAccount ''farms/d'')"
    using sidecar_priority_order [OF fresh(1), of sidecarFarm "''farms/d''"]
    by (simp add: fresh sidecarFarm_lookups yieldsNothing_def)
  from a b c d show ?thesis by simp
qed

end
